theory Spec2Isabelle
  imports Complex_Main
begin

section \<open>The WorkoutTimer component as a state machine\<close>

text \<open>
  The repository is one React component, \<^verbatim>\<open>WorkoutTimer\<close>. Its state is the tuple of
  its \<^verbatim>\<open>useState\<close> cells; every user action and every firing of an interval timer
  is one event that rewrites some cells, after which React renders again and runs the
  effects whose dependencies changed. JavaScript numbers are modelled as \<^typ>\<open>int\<close>:
  every number the component stores comes from \<^verbatim>\<open>parseInt\<close>, a literal, or one of
  them plus or minus one.
\<close>

subsection \<open>State\<close>

record timer =
  workTime :: int
  restTime :: int
  totalDuration :: int
  prepareTime :: int
  currentTime :: int
  isWork :: bool
  isActive :: bool
  isPreparing :: bool
  prepTime :: int
  sessionTime :: int
  workColor :: string
  restColor :: string
  bgColor :: string
  textColor :: string
  showSettings :: bool

text \<open>The constants of \<^verbatim>\<open>INITIAL_STATES\<close>.\<close>

definition WORK_TIME :: int where
  "WORK_TIME = 40"

definition REST_TIME :: int where
  "REST_TIME = 20"

definition TOTAL_DURATION :: int where
  "TOTAL_DURATION = 8"

definition PREP_TIME :: int where
  "PREP_TIME = 3"

text \<open>The arguments of the fifteen \<^verbatim>\<open>useState\<close> calls.\<close>

definition initial_state :: timer where
  "initial_state =
     \<lparr> workTime = WORK_TIME, restTime = REST_TIME, totalDuration = TOTAL_DURATION,
       prepareTime = PREP_TIME, currentTime = WORK_TIME, isWork = True,
       isActive = False, isPreparing = False, prepTime = PREP_TIME, sessionTime = 0,
       workColor = ''#00FF00'', restColor = ''#FF0000'', bgColor = ''#000000'',
       textColor = ''#FFFFFF'', showSettings = False \<rparr>"

subsection \<open>The numeric settings field\<close>

text \<open>
  \<^verbatim>\<open>parseInt(e.target.value) || min\<close>: the result of \<^verbatim>\<open>parseInt\<close> is an integer or
  \<^verbatim>\<open>NaN\<close>, modelled as \<^typ>\<open>int option\<close> with \<^term>\<open>None\<close> for \<^verbatim>\<open>NaN\<close>. The
  operator \<^verbatim>\<open>||\<close> takes its right operand when the left one is falsy, which for a
  number means \<^verbatim>\<open>NaN\<close> or zero.
\<close>

definition parsed_or :: "int option \<Rightarrow> int \<Rightarrow> int" where
  "parsed_or p d = (case p of None \<Rightarrow> d | Some v \<Rightarrow> if v = 0 then d else v)"

text \<open>The value \<^verbatim>\<open>TimerSetting\<close> hands to its \<^verbatim>\<open>onChange\<close> property.\<close>

definition TimerSetting :: "int \<Rightarrow> int \<Rightarrow> int option \<Rightarrow> int" where
  "TimerSetting lo hi p = max lo (min hi (parsed_or p lo))"

subsection \<open>The text of a numeric field\<close>

text \<open>
  \<^verbatim>\<open>e.target.value\<close> is a JavaScript string, modelled as its list of UTF-16 code
  units. \<^verbatim>\<open>parseInt\<close> is the language's built-in, called with no radix: it skips
  leading white space, takes one sign, switches to radix 16 after \<^verbatim>\<open>0x\<close> or
  \<^verbatim>\<open>0X\<close>, reads the longest run of digits and ignores whatever follows; with no
  digit it returns \<^verbatim>\<open>NaN\<close>. The result is kept as an exact integer: rounding it
  to a double is monotone and exact below \<open>2^53\<close>, so it cannot move a value across a
  bound of 1, 10, 60 or 3600.
\<close>

definition code_units :: "string \<Rightarrow> nat list" where
  "code_units txt = map of_char txt"

definition is_digit :: "nat \<Rightarrow> bool" where
  "is_digit c = (48 \<le> c \<and> c \<le> 57)"

definition is_hex_digit :: "nat \<Rightarrow> bool" where
  "is_hex_digit c = (is_digit c \<or> (97 \<le> c \<and> c \<le> 102) \<or> (65 \<le> c \<and> c \<le> 70))"

definition digit_of :: "nat \<Rightarrow> int" where
  "digit_of c = (if 97 \<le> c then int c - 87 else if 65 \<le> c then int c - 55 else int c - 48)"

definition radix_value :: "int \<Rightarrow> nat list \<Rightarrow> int" where
  "radix_value r z = foldl (\<lambda>a c. r * a + digit_of c) 0 z"

text \<open>The white space and line terminator code points of the language.\<close>

definition is_white :: "nat \<Rightarrow> bool" where
  "is_white c =
     (c \<in> set [9, 10, 11, 12, 13, 32, 160, 5760, 8232, 8233, 8239, 8287, 12288, 65279]
      \<or> (8192 \<le> c \<and> c \<le> 8202))"

definition parseInt :: "nat list \<Rightarrow> int option" where
  "parseInt cs =
     (let s = dropWhile is_white cs;
          neg = (take 1 s = [45]);
          s1 = (if take 1 s = [45] \<or> take 1 s = [43] then drop 1 s else s);
          hex = (take 2 s1 = [48, 120] \<or> take 2 s1 = [48, 88]);
          s2 = (if hex then drop 2 s1 else s1);
          z = takeWhile (if hex then is_hex_digit else is_digit) s2
      in if z = [] then None
         else Some ((if neg then - 1 else 1) * radix_value (if hex then 16 else 10) z))"

text \<open>
  The number a text denotes for an \<^verbatim>\<open>input\<close> of type \<^verbatim>\<open>number\<close>: an optional
  minus sign, digits with an optional fraction (or a fraction alone), and an optional
  exponent \<^verbatim>\<open>e\<close> or \<^verbatim>\<open>E\<close> with its own sign; \<^term>\<open>None\<close> for any other text.
  This is the "numeric input" the clamping property speaks of; the component itself
  never computes it.
\<close>

definition number_value :: "nat list \<Rightarrow> rat option" where
  "number_value cs =
     (let neg = (take 1 cs = [45]);
          s1 = (if neg then drop 1 cs else cs);
          ip = takeWhile is_digit s1;
          r1 = dropWhile is_digit s1;
          dot = (take 1 r1 = [46]);
          fp = (if dot then takeWhile is_digit (drop 1 r1) else []);
          r2 = (if dot then dropWhile is_digit (drop 1 r1) else r1);
          ex = (take 1 r2 = [101] \<or> take 1 r2 = [69]);
          r3 = (if ex then drop 1 r2 else r2);
          eneg = (ex \<and> take 1 r3 = [45]);
          r4 = (if ex \<and> (take 1 r3 = [45] \<or> take 1 r3 = [43]) then drop 1 r3 else r3);
          ed = (if ex then takeWhile is_digit r4 else []);
          r5 = (if ex then dropWhile is_digit r4 else r4)
      in if (ip = [] \<and> fp = []) \<or> (dot \<and> fp = []) \<or> (ex \<and> ed = []) \<or> r5 \<noteq> []
         then None
         else Some ((if neg then - 1 else 1)
                * (of_int (radix_value 10 (ip @ fp)) / 10 ^ length fp)
                * (if eneg then 1 / 10 ^ nat (radix_value 10 ed)
                   else 10 ^ nat (radix_value 10 ed))))"

text \<open>A number written as an integer: an optional minus sign and one or more digits.\<close>

definition plain_integer :: "nat list \<Rightarrow> bool" where
  "plain_integer cs =
     (let ds = (if take 1 cs = [45] then drop 1 cs else cs)
      in ds \<noteq> [] \<and> list_all is_digit ds)"

definition plain_value :: "nat list \<Rightarrow> int" where
  "plain_value cs =
     (if take 1 cs = [45] then - radix_value 10 (drop 1 cs) else radix_value 10 cs)"

subsection \<open>Handlers and interval callbacks\<close>

definition startPrepTimer :: "timer \<Rightarrow> timer" where
  "startPrepTimer s = s\<lparr>isPreparing := True, prepTime := prepareTime s\<rparr>"

definition toggleTimer :: "timer \<Rightarrow> timer" where
  "toggleTimer s =
     (if \<not> isActive s \<and> \<not> isPreparing s then startPrepTimer s
      else s\<lparr>isActive := \<not> isActive s\<rparr>)"

definition resetTimer :: "timer \<Rightarrow> timer" where
  "resetTimer s =
     s\<lparr>isActive := False, isPreparing := False, prepTime := prepareTime s,
       currentTime := workTime s, isWork := True, sessionTime := 0\<rparr>"

text \<open>
  The three \<^verbatim>\<open>useTimer\<close> callbacks. Each is installed with delay
  \<^verbatim>\<open>cond ? 1000 : null\<close>, and \<^verbatim>\<open>useTimer\<close> creates no interval for a
  \<^verbatim>\<open>null\<close> delay, so a tick of a ticker whose condition is false does nothing.
\<close>

definition prep_ticker :: "timer \<Rightarrow> timer" where
  "prep_ticker s =
     (if \<not> isPreparing s then s
      else if prepTime s \<le> 1
        then s\<lparr>isPreparing := False, isActive := True, prepTime := prepareTime s\<rparr>
      else s\<lparr>prepTime := prepTime s - 1\<rparr>)"

definition phase_ticker :: "timer \<Rightarrow> timer" where
  "phase_ticker s =
     (if \<not> isActive s then s
      else if currentTime s \<le> 1
        then s\<lparr>isWork := \<not> isWork s,
               currentTime :=
                 (if currentTime s = 1 then (if isWork s then restTime s else workTime s)
                  else currentTime s - 1)\<rparr>
      else s\<lparr>currentTime := currentTime s - 1\<rparr>)"

definition session_ticker :: "timer \<Rightarrow> timer" where
  "session_ticker s =
     (if \<not> isActive s then s
      else if sessionTime s \<ge> totalDuration s * 60 then s\<lparr>isActive := False\<rparr>
      else s\<lparr>sessionTime := sessionTime s + 1\<rparr>)"

subsection \<open>Rendering and the re-base effect\<close>

text \<open>
  The body of the effect with dependencies \<^verbatim>\<open>[workTime, isActive, isWork]\<close>.
\<close>

definition rebase_effect :: "timer \<Rightarrow> timer" where
  "rebase_effect s =
     (if \<not> isActive s \<and> isWork s then s\<lparr>currentTime := workTime s\<rparr> else s)"

text \<open>
  After an event has rewritten the state from \<open>old\<close> to \<open>new\<close>, React renders and runs
  the effect when one of its dependencies differs from the previous render.
\<close>

definition render :: "timer \<Rightarrow> timer \<Rightarrow> timer" where
  "render old new =
     (if workTime new = workTime old \<and> isActive new = isActive old \<and> isWork new = isWork old
      then new else rebase_effect new)"

text \<open>The state after mounting: the effect runs once after the first render.\<close>

definition mounted :: timer where
  "mounted = rebase_effect initial_state"

subsection \<open>Events\<close>

datatype event =
    Toggle
  | Reset
  | PrepTick
  | PhaseTick
  | SessionTick
  | EditWork "int option"
  | EditRest "int option"
  | EditTotal "int option"
  | EditPrep "int option"
  | PickWorkColor string
  | PickRestColor string
  | PickBgColor string
  | PickTextColor string
  | SetShowSettings bool

text \<open>
  What the handler of each event writes. The four numeric fields pass their
  \<^verbatim>\<open>min\<close> and \<^verbatim>\<open>max\<close> properties (defaults 1 and 3600) to \<^const>\<open>TimerSetting\<close>.
\<close>

fun handler :: "event \<Rightarrow> timer \<Rightarrow> timer" where
  "handler Toggle s = toggleTimer s"
| "handler Reset s = resetTimer s"
| "handler PrepTick s = prep_ticker s"
| "handler PhaseTick s = phase_ticker s"
| "handler SessionTick s = session_ticker s"
| "handler (EditWork p) s = s\<lparr>workTime := TimerSetting 1 3600 p\<rparr>"
| "handler (EditRest p) s = s\<lparr>restTime := TimerSetting 1 3600 p\<rparr>"
| "handler (EditTotal p) s = s\<lparr>totalDuration := TimerSetting 1 60 p\<rparr>"
| "handler (EditPrep p) s = s\<lparr>prepareTime := TimerSetting 1 10 p\<rparr>"
| "handler (PickWorkColor c) s = s\<lparr>workColor := c\<rparr>"
| "handler (PickRestColor c) s = s\<lparr>restColor := c\<rparr>"
| "handler (PickBgColor c) s = s\<lparr>bgColor := c\<rparr>"
| "handler (PickTextColor c) s = s\<lparr>textColor := c\<rparr>"
| "handler (SetShowSettings b) s = s\<lparr>showSettings := b\<rparr>"

text \<open>
  One event: the handler's writes are batched, then the component renders. The values a
  callback reads from its closure (\<^verbatim>\<open>prepareTime\<close>, \<^verbatim>\<open>isWork\<close>, \<^verbatim>\<open>restTime\<close>,
  \<^verbatim>\<open>workTime\<close>, \<^verbatim>\<open>totalDuration\<close>) are those of the last render, since
  \<^verbatim>\<open>useTimer\<close> stores the newest callback after every render, and each updater
  function is taken to run once. The three intervals are separate events in any order;
  wall-clock time is not modelled, so the reachable states of the model include those
  of every real schedule. The settings fields are not tied to \<open>showSettings\<close>: whether
  the dialog mounts them only while open is the dialog library's business.
\<close>

definition step :: "event \<Rightarrow> timer \<Rightarrow> timer" where
  "step e s = render s (handler e s)"

fun run :: "event list \<Rightarrow> timer \<Rightarrow> timer" where
  "run [] s = s"
| "run (e # es) s = run es (step e s)"

subsection \<open>Vocabulary of the properties\<close>

text \<open>
  The position \<open>c\<close> in the work/rest cycle, counted in phase ticks since the start of a
  work phase: the phase is Work for the first \<open>workTime\<close> positions and Rest for the
  following \<open>restTime\<close> ones, and the countdown shows what is left of the phase.
\<close>

definition phase_at :: "timer \<Rightarrow> int \<Rightarrow> timer" where
  "phase_at s c =
     s\<lparr>isWork := c < workTime s,
       currentTime := (if c < workTime s then workTime s - c else workTime s + restTime s - c)\<rparr>"

text \<open>The bounds that \<^const>\<open>TimerSetting\<close> enforces on the four durations.\<close>

definition config_ok :: "timer \<Rightarrow> bool" where
  "config_ok s =
     (1 \<le> workTime s \<and> workTime s \<le> 3600 \<and> 1 \<le> restTime s \<and> restTime s \<le> 3600
      \<and> 1 \<le> totalDuration s \<and> totalDuration s \<le> 60
      \<and> 1 \<le> prepareTime s \<and> prepareTime s \<le> 10)"

text \<open>
  What holds after every event: the durations are within their bounds, the countdown is
  at least one, the session counter is not negative, and a timer that is not active in
  the Work phase shows the full work time (the re-base effect sees to that).
\<close>

definition reach_inv :: "timer \<Rightarrow> bool" where
  "reach_inv s =
     (config_ok s \<and> 1 \<le> currentTime s \<and> 0 \<le> sessionTime s
      \<and> (if \<not> isActive s \<and> isWork s then currentTime s = workTime s else True))"




text \<open>Every event but the start/pause button and an edit of the work time.\<close>

fun quiet :: "event \<Rightarrow> bool" where
  "quiet Toggle = False"
| "quiet (EditWork p) = False"
| "quiet e = True"

subsection \<open>Sample sessions\<close>

text \<open>
  The scenario of the specification: work 5, rest 3, total 1 minute, preparation 2,
  then start and let the preparation run out.
\<close>

definition example_running :: timer where
  "example_running =
     run [SetShowSettings True, EditWork (Some 5), EditRest (Some 3), EditTotal (Some 1),
          EditPrep (Some 2), SetShowSettings False, Toggle, PrepTick, PrepTick] mounted"


text \<open>Default settings, started, one second into the first work phase.\<close>

definition running_mid_work :: timer where
  "running_mid_work =
     run [Toggle, PrepTick, PrepTick, PrepTick, PhaseTick, SessionTick] mounted"

text \<open>
  Work time 100 and total duration one minute, started, sixty seconds into the session:
  the session counter has reached its cap in the middle of the first work phase.
\<close>

definition session_full_mid_work :: timer where
  "session_full_mid_work =
     run ([SetShowSettings True, EditWork (Some 100), EditTotal (Some 1),
           SetShowSettings False, Toggle, PrepTick, PrepTick, PrepTick]
          @ concat (replicate 60 [PhaseTick, SessionTick])) mounted"

text \<open>
  Default settings, started, paused by the button after forty seconds, when the first
  rest phase has just begun.
\<close>

definition paused_in_rest :: timer where
  "paused_in_rest =
     run ([Toggle, PrepTick, PrepTick, PrepTick]
          @ concat (replicate 40 [PhaseTick, SessionTick]) @ [Toggle]) mounted"




section \<open>Properties\<close>

subsection \<open>Reset\<close>

text \<open>
  Claim C7. From every state, the reset action yields \<open>isActive = false\<close>,
  \<open>isPreparing = false\<close>, \<open>prepTime = prepareTime\<close>, \<open>currentTime = workTime\<close>,
  \<open>isWork = true\<close> and \<open>sessionTime = 0\<close>, and a second reset changes nothing more.
  It is proved for every state, reachable or not.
\<close>

theorem reset_result_idempotent:
  "\<not> isActive (step Reset s) \<and> \<not> isPreparing (step Reset s)
   \<and> prepTime (step Reset s) = prepareTime s
   \<and> currentTime (step Reset s) = workTime s
   \<and> isWork (step Reset s)
   \<and> sessionTime (step Reset s) = 0
   \<and> prepareTime (step Reset s) = prepareTime s
   \<and> workTime (step Reset s) = workTime s
   \<and> step Reset (step Reset s) = step Reset s"
  by (simp add: step_def render_def rebase_effect_def resetTimer_def)

text \<open>
  Claim C10. The reset action leaves the four durations and the four colours as they
  were: the state after it is the state before it with exactly \<open>isActive\<close>,
  \<open>isPreparing\<close>, \<open>prepTime\<close>, \<open>currentTime\<close>, \<open>isWork\<close> and \<open>sessionTime\<close> rewritten.
\<close>

theorem reset_frame:
  "workTime (step Reset s) = workTime s
   \<and> restTime (step Reset s) = restTime s
   \<and> totalDuration (step Reset s) = totalDuration s
   \<and> prepareTime (step Reset s) = prepareTime s
   \<and> workColor (step Reset s) = workColor s
   \<and> restColor (step Reset s) = restColor s
   \<and> bgColor (step Reset s) = bgColor s
   \<and> textColor (step Reset s) = textColor s
   \<and> step Reset s =
       s\<lparr>isActive := False, isPreparing := False, prepTime := prepareTime s,
         currentTime := workTime s, isWork := True, sessionTime := 0\<rparr>"
  by (simp add: step_def render_def rebase_effect_def resetTimer_def)

subsection \<open>Clamping of the numeric settings\<close>

lemmas parse_defs = parseInt_def number_value_def code_units_def is_digit_def
  is_hex_digit_def is_white_def radix_value_def digit_of_def Let_def

text \<open>What each field commits for a result \<open>p\<close> of \<^verbatim>\<open>parseInt\<close>.\<close>

lemma committed_of_parsed:
  "workTime (step (EditWork p) s) = (case p of None \<Rightarrow> 1 | Some n \<Rightarrow> max 1 (min 3600 n))
   \<and> restTime (step (EditRest p) s) = (case p of None \<Rightarrow> 1 | Some n \<Rightarrow> max 1 (min 3600 n))
   \<and> totalDuration (step (EditTotal p) s) = (case p of None \<Rightarrow> 1 | Some n \<Rightarrow> max 1 (min 60 n))
   \<and> prepareTime (step (EditPrep p) s) = (case p of None \<Rightarrow> 1 | Some n \<Rightarrow> max 1 (min 10 n))"
  by (cases p)
     (simp_all add: step_def render_def rebase_effect_def TimerSetting_def parsed_or_def)

lemma digits_take:
  "list_all is_digit ds \<Longrightarrow> takeWhile is_digit ds = ds \<and> dropWhile is_digit ds = []"
  by (induction ds) simp_all

lemma digits_head:
  assumes "ds \<noteq> []" "list_all is_digit ds"
  shows "dropWhile is_white ds = ds"
    "take (Suc 0) ds \<noteq> [45]" "take (Suc 0) ds \<noteq> [43]"
    "take 2 ds \<noteq> [48, 120]" "take 2 ds \<noteq> [48, 88]"
proof -
  obtain d r where ds: "ds = d # r"
    using assms(1) by (cases ds) auto
  have d: "is_digit d" and r: "list_all is_digit r"
    using assms(2) ds by simp_all
  have "\<not> is_white d"
    using d by (auto simp: is_digit_def is_white_def)
  then show "dropWhile is_white ds = ds"
    using ds by simp
  show "take (Suc 0) ds \<noteq> [45]" "take (Suc 0) ds \<noteq> [43]"
    using d ds by (auto simp: is_digit_def)
  show "take 2 ds \<noteq> [48, 120]" "take 2 ds \<noteq> [48, 88]"
    using r ds by (cases r; auto simp: is_digit_def)+
qed

lemma radix_value_Nil: "radix_value r [] = 0"
  by (simp add: radix_value_def)

lemma digits_read:
  assumes "ds \<noteq> []" "list_all is_digit ds"
  shows "parseInt ds = Some (radix_value 10 ds)"
    and "number_value ds = Some (of_int (radix_value 10 ds))"
proof -
  note h = digits_head [OF assms] and t = digits_take [OF assms(2)]
  show "parseInt ds = Some (radix_value 10 ds)"
    using assms(1) by (simp add: parseInt_def Let_def h t)
  show "number_value ds = Some (of_int (radix_value 10 ds))"
    using assms(1) by (simp add: number_value_def Let_def h t radix_value_Nil)
qed

text \<open>
  For a number written as an integer, \<^verbatim>\<open>parseInt\<close> reads the number the text
  denotes.
\<close>

lemma plain_integer_reads:
  assumes "plain_integer cs"
  shows "parseInt cs = Some (plain_value cs)
    \<and> number_value cs = Some (of_int (plain_value cs))"
proof (cases "take 1 cs = [45]")
  case False
  then have "cs \<noteq> []" "list_all is_digit cs"
    using assms by (simp_all add: plain_integer_def)
  from digits_read [OF this] False show ?thesis
    by (simp add: plain_value_def)
next
  case True
  then obtain ds where cs: "cs = 45 # ds"
    by (cases cs) auto
  have ds: "ds \<noteq> []" "list_all is_digit ds"
    using assms cs by (simp_all add: plain_integer_def)
  note h = digits_head [OF ds] and t = digits_take [OF ds(2)]
  have w: "\<not> is_white 45"
    by (simp add: is_white_def)
  have p: "parseInt (45 # ds) = Some (- radix_value 10 ds)"
    using ds(1) by (simp add: parseInt_def Let_def w h t)
  have n: "number_value (45 # ds) = Some (- of_int (radix_value 10 ds))"
    using ds(1) by (simp add: number_value_def Let_def h t radix_value_Nil)
  from p n cs show ?thesis
    by (simp add: plain_value_def)
qed

text \<open>
  Claim C5, as amended. For each of the four duration fields (work and rest
  \<open>[1, 3600]\<close>, total minutes \<open>[1, 60]\<close>, preparation \<open>[1, 10]\<close>) and every input text:
  when \<^verbatim>\<open>parseInt\<close> reads the integer \<open>n\<close> from the text, the field commits
  \<open>max(min, min(max, n))\<close>, and when it reads none the field commits its minimum. For
  a number written as an integer, \<open>n\<close> is the number the text denotes, so the field
  commits \<open>max(min, min(max, v))\<close> of the numeric input \<open>v\<close>. The committed value is a
  plain number in every case, so there is no error to surface. For other numeric
  inputs \<open>n\<close> is only the integer in front of the first character that is not a digit.
\<close>

theorem settings_commit:
  "workTime (step (EditWork (parseInt txt)) s)
     = (case parseInt txt of None \<Rightarrow> 1 | Some n \<Rightarrow> max 1 (min 3600 n))
   \<and> restTime (step (EditRest (parseInt txt)) s)
     = (case parseInt txt of None \<Rightarrow> 1 | Some n \<Rightarrow> max 1 (min 3600 n))
   \<and> totalDuration (step (EditTotal (parseInt txt)) s)
     = (case parseInt txt of None \<Rightarrow> 1 | Some n \<Rightarrow> max 1 (min 60 n))
   \<and> prepareTime (step (EditPrep (parseInt txt)) s)
     = (case parseInt txt of None \<Rightarrow> 1 | Some n \<Rightarrow> max 1 (min 10 n))
   \<and> (plain_integer txt \<longrightarrow>
        number_value txt = Some (of_int (plain_value txt))
        \<and> workTime (step (EditWork (parseInt txt)) s) = max 1 (min 3600 (plain_value txt))
        \<and> restTime (step (EditRest (parseInt txt)) s) = max 1 (min 3600 (plain_value txt))
        \<and> totalDuration (step (EditTotal (parseInt txt)) s) = max 1 (min 60 (plain_value txt))
        \<and> prepareTime (step (EditPrep (parseInt txt)) s) = max 1 (min 10 (plain_value txt)))"
proof -
  note c = committed_of_parsed [of "parseInt txt" s]
  have "number_value txt = Some (of_int (plain_value txt))
        \<and> workTime (step (EditWork (parseInt txt)) s) = max 1 (min 3600 (plain_value txt))
        \<and> restTime (step (EditRest (parseInt txt)) s) = max 1 (min 3600 (plain_value txt))
        \<and> totalDuration (step (EditTotal (parseInt txt)) s) = max 1 (min 60 (plain_value txt))
        \<and> prepareTime (step (EditPrep (parseInt txt)) s) = max 1 (min 10 (plain_value txt))"
    if "plain_integer txt"
    using plain_integer_reads [OF that] c by simp
  with c show ?thesis
    by blast
qed

text \<open>
  Witness for C5: the text \<^verbatim>\<open>25\<close> is a plain integer and denotes 25; the work
  field commits 25 and the preparation field 10. The empty text commits 1.
\<close>

theorem settings_commit_witness:
  "plain_integer (code_units ''25'')
   \<and> number_value (code_units ''25'') = Some 25
   \<and> workTime (step (EditWork (parseInt (code_units ''25''))) mounted) = 25
   \<and> prepareTime (step (EditPrep (parseInt (code_units ''25''))) mounted) = 10
   \<and> workTime (step (EditWork (parseInt (code_units []))) mounted) = 1"
proof -
  have p: "plain_integer (code_units ''25'')"
    by (simp add: plain_integer_def code_units_def is_digit_def)
  have v: "plain_value (code_units ''25'') = 25"
    by (simp add: plain_value_def code_units_def radix_value_def digit_of_def)
  have e: "parseInt (code_units []) = None"
    by (simp add: parse_defs)
  from p v e settings_commit [of "code_units ''25''" mounted]
    settings_commit [of "code_units []" mounted]
  show ?thesis by simp
qed

text \<open>
  Counterexample to C5 as stated: the text \<^verbatim>\<open>2e1\<close> is a numeric input and denotes
  20, which lies within \<open>[1, 3600]\<close>, but \<^verbatim>\<open>parseInt\<close> stops at the \<^verbatim>\<open>e\<close> and the
  work field commits 2. Likewise \<^verbatim>\<open>2.7\<close> denotes 27/10 and commits 2.
\<close>

theorem exponent_input_counterexample:
  "number_value (code_units ''2e1'') = Some 20
   \<and> max 1 (min 3600 (20 :: rat)) = 20
   \<and> workTime (step (EditWork (parseInt (code_units ''2e1''))) mounted) = 2
   \<and> number_value (code_units ''2.7'') = Some (27 / 10)
   \<and> max 1 (min 3600 (27 / 10 :: rat)) = 27 / 10
   \<and> workTime (step (EditWork (parseInt (code_units ''2.7''))) mounted) = 2"
proof -
  have "parseInt (code_units ''2e1'') = Some 2" "parseInt (code_units ''2.7'') = Some 2"
    by (simp_all add: parse_defs)
  moreover have "number_value (code_units ''2e1'') = Some 20"
    "number_value (code_units ''2.7'') = Some (27 / 10)"
    by (simp_all add: parse_defs)
  ultimately show ?thesis
    by (simp add: step_def render_def rebase_effect_def TimerSetting_def parsed_or_def)
qed

subsection \<open>Single events\<close>

lemmas event_defs = step_def render_def rebase_effect_def toggleTimer_def startPrepTimer_def
  resetTimer_def prep_ticker_def phase_ticker_def session_ticker_def

lemmas mount_defs = mounted_def initial_state_def TimerSetting_def parsed_or_def
  WORK_TIME_def REST_TIME_def TOTAL_DURATION_def PREP_TIME_def

lemma run_append: "run (xs @ ys) s = run ys (run xs s)"
  by (induction xs arbitrary: s) simp_all

lemma TimerSetting_range:
  "lo \<le> hi \<Longrightarrow> lo \<le> TimerSetting lo hi p \<and> TimerSetting lo hi p \<le> hi"
  by (simp add: TimerSetting_def)

lemma phase_tick_active:
  "isActive s \<Longrightarrow> 1 \<le> currentTime s \<Longrightarrow>
   step PhaseTick s =
     (if currentTime s = 1
      then s\<lparr>isWork := \<not> isWork s,
             currentTime := (if isWork s then restTime s else workTime s)\<rparr>
      else s\<lparr>currentTime := currentTime s - 1\<rparr>)"
  by (simp add: event_defs)

lemma phase_tick_frame:
  "totalDuration (step PhaseTick s) = totalDuration s
   \<and> sessionTime (step PhaseTick s) = sessionTime s
   \<and> isActive (step PhaseTick s) = isActive s"
  by (simp add: event_defs)

lemma phase_tick_sessionTime:
  "step PhaseTick (s\<lparr>sessionTime := x\<rparr>) = (step PhaseTick s)\<lparr>sessionTime := x\<rparr>"
  by (simp add: event_defs)

lemma session_tick_below:
  "isActive s \<Longrightarrow> sessionTime s < totalDuration s * 60 \<Longrightarrow>
   step SessionTick s = s\<lparr>sessionTime := sessionTime s + 1\<rparr>"
  by (simp add: event_defs)

text \<open>
  At the cap the session ticker only clears \<open>isActive\<close>; the render that follows sees
  \<open>isActive\<close> changed and runs the re-base effect, which rewrites the countdown when
  the phase is Work.
\<close>

lemma session_tick_at_cap:
  "isActive s \<Longrightarrow> totalDuration s * 60 \<le> sessionTime s \<Longrightarrow>
   step SessionTick s =
     (if isWork s then s\<lparr>isActive := False, currentTime := workTime s\<rparr>
      else s\<lparr>isActive := False\<rparr>)"
  by (simp add: event_defs)

lemma stopped_ticks_idle:
  "\<not> isActive s \<Longrightarrow> \<not> isPreparing s \<Longrightarrow>
   step PrepTick s = s \<and> step PhaseTick s = s \<and> step SessionTick s = s"
  by (simp add: event_defs)

text \<open>
  Pausing a running timer and pressing the button again: the second press starts a new
  preparation. The session counter is kept; the countdown is kept in the Rest phase and
  rewritten to the work time in the Work phase.
\<close>

lemma pause_then_start:
  "isActive s \<Longrightarrow> \<not> isPreparing s \<Longrightarrow>
   step Toggle (step Toggle s) =
     (if isWork s
      then s\<lparr>isActive := False, currentTime := workTime s, isPreparing := True,
             prepTime := prepareTime s\<rparr>
      else s\<lparr>isActive := False, isPreparing := True, prepTime := prepareTime s\<rparr>)"
  by (simp add: event_defs)

lemma prep_tick_decrement:
  "isPreparing t \<Longrightarrow> 1 < prepTime t \<Longrightarrow>
   step PrepTick t = t\<lparr>prepTime := prepTime t - 1\<rparr>"
  by (simp add: event_defs)

lemma prep_tick_finish:
  "isPreparing t \<Longrightarrow> prepTime t \<le> 1 \<Longrightarrow>
   step PrepTick t = t\<lparr>isPreparing := False, isActive := True, prepTime := prepareTime t\<rparr>"
  by (simp add: event_defs)

subsection \<open>The invariant of the reachable states\<close>

lemma reach_inv_mounted: "reach_inv mounted"
  by (simp add: reach_inv_def config_ok_def mount_defs rebase_effect_def)


lemma reach_inv_step:
  assumes "reach_inv s"
  shows "reach_inv (step e s)"
proof (cases e)
  case (EditWork p)
  with assms TimerSetting_range [of 1 3600 p] show ?thesis
    by (auto simp: reach_inv_def config_ok_def event_defs)
next
  case (EditRest p)
  with assms TimerSetting_range [of 1 3600 p] show ?thesis
    by (auto simp: reach_inv_def config_ok_def event_defs)
next
  case (EditTotal p)
  with assms TimerSetting_range [of 1 60 p] show ?thesis
    by (auto simp: reach_inv_def config_ok_def event_defs)
next
  case (EditPrep p)
  with assms TimerSetting_range [of 1 10 p] show ?thesis
    by (auto simp: reach_inv_def config_ok_def event_defs)
qed (use assms in \<open>auto simp: reach_inv_def config_ok_def event_defs\<close>)

lemma reach_inv_run: "reach_inv s \<Longrightarrow> reach_inv (run evs s)"
  by (induction evs arbitrary: s) (simp_all add: reach_inv_step)




subsection \<open>Phase alternation\<close>

lemma cycle_succ:
  fixes T :: int
  assumes "0 < T"
  shows "int (Suc n) mod T = (if int n mod T + 1 = T then 0 else int n mod T + 1)"
proof -
  have "(int n + 1) mod T = (int n mod T + 1) mod T"
    by (simp only: mod_add_left_eq)
  then have "int (Suc n) mod T = (int n mod T + 1) mod T"
    by (simp only: of_nat_Suc add.commute)
  moreover have "0 \<le> int n mod T" "int n mod T < T"
    using assms by simp_all
  ultimately show ?thesis
    by (auto simp: mod_pos_pos_trivial)
qed

lemma phase_at_step:
  assumes "isActive s" "1 \<le> workTime s" "1 \<le> restTime s"
    and "0 \<le> c" "c < workTime s + restTime s"
  shows "step PhaseTick (phase_at s c) =
     phase_at s (if c + 1 = workTime s + restTime s then 0 else c + 1)"
proof (cases "c < workTime s")
  case True
  then show ?thesis
    using assms by (simp add: phase_at_def phase_tick_active)
next
  case False
  then show ?thesis
    using assms by (simp add: phase_at_def phase_tick_active)
qed

lemma phase_at_work:
  assumes "isWork s" "0 \<le> c" "c < workTime s"
  shows "phase_at s c = s\<lparr>currentTime := workTime s - c\<rparr>"
  using assms by (cases s) (simp add: phase_at_def)

lemma phase_at_rest:
  assumes "workTime s \<le> c"
  shows "phase_at s c = s\<lparr>isWork := False, currentTime := workTime s + restTime s - c\<rparr>"
  using assms by (simp add: phase_at_def)

lemma phase_at_start:
  assumes "isWork s" "currentTime s = workTime s" "1 \<le> workTime s"
  shows "phase_at s 0 = s"
  using assms by (cases s) (simp add: phase_at_def)

text \<open>
  After \<open>n\<close> phase ticks the timer stands at position \<open>n mod (workTime + restTime)\<close> of
  the cycle.
\<close>

lemma phase_ticks_closed_form:
  assumes "isActive s" "isWork s" "currentTime s = workTime s"
    and "1 \<le> workTime s" "1 \<le> restTime s"
  shows "(step PhaseTick ^^ n) s = phase_at s (int n mod (workTime s + restTime s))"
proof (induction n)
  case 0
  show ?case using assms by (simp add: phase_at_def)
next
  case (Suc n)
  have T: "0 < workTime s + restTime s"
    using assms by simp
  have c: "0 \<le> int n mod (workTime s + restTime s)"
    "int n mod (workTime s + restTime s) < workTime s + restTime s"
    using T by simp_all
  have "(step PhaseTick ^^ Suc n) s =
      step PhaseTick (phase_at s (int n mod (workTime s + restTime s)))"
    using Suc.IH by simp
  also have "\<dots> = phase_at s (int (Suc n) mod (workTime s + restTime s))"
    using phase_at_step [OF assms(1) assms(4) assms(5) c] cycle_succ [OF T, of n]
    by simp
  finally show ?case .
qed

lemma phase_ticks_sessionTime:
  "(step PhaseTick ^^ n) (s\<lparr>sessionTime := x\<rparr>) =
     ((step PhaseTick ^^ n) s)\<lparr>sessionTime := x\<rparr>"
  by (induction n) (simp_all add: phase_tick_sessionTime)

text \<open>
  Session ticks below the cap only count: a mixed sequence of phase and session ticks
  leaves the timer where its phase ticks alone would, with the session ticks added to
  the session counter.
\<close>

lemma interleaved_ticks:
  assumes "isActive s" "set evs \<subseteq> {PhaseTick, SessionTick}"
    and "sessionTime s + int (count_list evs SessionTick) \<le> totalDuration s * 60"
  shows "run evs s =
     ((step PhaseTick ^^ count_list evs PhaseTick) s)
       \<lparr>sessionTime := sessionTime s + int (count_list evs SessionTick)\<rparr>"
  using assms
proof (induction evs arbitrary: s)
  case Nil
  then show ?case by simp
next
  case (Cons e evs)
  from Cons.prems(2) have "e = PhaseTick \<or> e = SessionTick" by simp
  then show ?case
  proof
    assume e: "e = PhaseTick"
    have "run evs (step PhaseTick s) =
        ((step PhaseTick ^^ count_list evs PhaseTick) (step PhaseTick s))
          \<lparr>sessionTime :=
              sessionTime (step PhaseTick s) + int (count_list evs SessionTick)\<rparr>"
      using Cons.prems e by (intro Cons.IH) (simp_all add: phase_tick_frame)
    then show ?thesis
      using e by (simp add: funpow_swap1 phase_tick_frame)
  next
    assume e: "e = SessionTick"
    have below: "sessionTime s < totalDuration s * 60"
      using Cons.prems(3) e by simp
    have st: "step SessionTick s = s\<lparr>sessionTime := sessionTime s + 1\<rparr>"
      using Cons.prems(1) below by (rule session_tick_below)
    have "run evs (s\<lparr>sessionTime := sessionTime s + 1\<rparr>) =
        ((step PhaseTick ^^ count_list evs PhaseTick) (s\<lparr>sessionTime := sessionTime s + 1\<rparr>))
          \<lparr>sessionTime := sessionTime (s\<lparr>sessionTime := sessionTime s + 1\<rparr>)
              + int (count_list evs SessionTick)\<rparr>"
      using Cons.prems e by (intro Cons.IH) simp_all
    then show ?thesis
      using e st by (simp add: phase_ticks_sessionTime add.assoc)
  qed
qed

text \<open>
  Claim C3. Take a running timer (\<open>isActive\<close>) at the start of a work phase
  (\<open>isWork\<close>, \<open>currentTime = workTime\<close>) with work and rest times of at least one
  second. Then
  \<^item> each of the first \<open>workTime - 1\<close> phase ticks only decrements the countdown;
  \<^item> tick number \<open>workTime\<close> switches to Rest with \<open>currentTime = restTime\<close>;
  \<^item> the next \<open>restTime - 1\<close> ticks only decrement;
  \<^item> tick number \<open>workTime + restTime\<close> restores the starting state;
  \<^item> in any active state with a countdown of at least one, a phase tick flips the phase
    exactly when the countdown was 1 and otherwise decrements it by one;
  \<^item> the cycle repeats: after any mix of phase ticks and session ticks that keeps the
    session counter within \<open>totalDuration * 60\<close>, the phase and countdown are those of
    position (number of phase ticks) modulo \<open>workTime + restTime\<close>.
  The upper bound 3600 of the two durations is not needed. A countdown below one, where
  the ticker would flip the phase and keep decrementing, occurs in no reachable state
  (\<open>reach_inv_run\<close>).
\<close>

theorem phase_alternation:
  assumes "isActive s" "isWork s" "currentTime s = workTime s"
    and "1 \<le> workTime s" "1 \<le> restTime s"
  shows
    "(\<forall>k. k < nat (workTime s) \<longrightarrow>
        (step PhaseTick ^^ k) s = s\<lparr>currentTime := workTime s - int k\<rparr>)
     \<and> (step PhaseTick ^^ nat (workTime s)) s = s\<lparr>isWork := False, currentTime := restTime s\<rparr>
     \<and> (\<forall>k. k < nat (restTime s) \<longrightarrow>
        (step PhaseTick ^^ (nat (workTime s) + k)) s =
          s\<lparr>isWork := False, currentTime := restTime s - int k\<rparr>)
     \<and> (step PhaseTick ^^ (nat (workTime s) + nat (restTime s))) s = s
     \<and> (\<forall>t. isActive t \<and> 1 \<le> currentTime t \<longrightarrow>
        step PhaseTick t =
          (if currentTime t = 1
           then t\<lparr>isWork := \<not> isWork t,
                  currentTime := (if isWork t then restTime t else workTime t)\<rparr>
           else t\<lparr>currentTime := currentTime t - 1\<rparr>))
     \<and> (\<forall>evs. set evs \<subseteq> {PhaseTick, SessionTick}
          \<and> sessionTime s + int (count_list evs SessionTick) \<le> totalDuration s * 60 \<longrightarrow>
        run evs s =
          (phase_at s (int (count_list evs PhaseTick) mod (workTime s + restTime s)))
            \<lparr>sessionTime := sessionTime s + int (count_list evs SessionTick)\<rparr>)"
proof -
  let ?w = "workTime s" and ?r = "restTime s"
  note cf = phase_ticks_closed_form [OF assms]
  have work: "(step PhaseTick ^^ k) s = s\<lparr>currentTime := ?w - int k\<rparr>" if "k < nat ?w" for k
  proof -
    have "int k mod (?w + ?r) = int k"
      using that assms by (simp add: mod_pos_pos_trivial)
    then show ?thesis
      using that assms by (simp add: cf phase_at_work)
  qed
  have rest: "(step PhaseTick ^^ (nat ?w + k)) s = s\<lparr>isWork := False, currentTime := ?r - int k\<rparr>"
    if "k < nat ?r" for k
  proof -
    have "int (nat ?w + k) mod (?w + ?r) = ?w + int k"
      using that assms by (simp add: mod_pos_pos_trivial)
    then show ?thesis
      using that assms by (simp add: cf phase_at_rest)
  qed
  have flip: "(step PhaseTick ^^ nat ?w) s = s\<lparr>isWork := False, currentTime := ?r\<rparr>"
    using rest [of 0] assms by simp
  have full: "(step PhaseTick ^^ (nat ?w + nat ?r)) s = s"
  proof -
    have "int (nat ?w + nat ?r) mod (?w + ?r) = 0"
      using assms by simp
    then show ?thesis
      using assms by (simp only: cf phase_at_start)
  qed
  have single: "step PhaseTick t =
      (if currentTime t = 1
       then t\<lparr>isWork := \<not> isWork t, currentTime := (if isWork t then restTime t else workTime t)\<rparr>
       else t\<lparr>currentTime := currentTime t - 1\<rparr>)"
    if "isActive t \<and> 1 \<le> currentTime t" for t
    using that by (simp add: phase_tick_active)
  have cycle: "run evs s =
      (phase_at s (int (count_list evs PhaseTick) mod (?w + ?r)))
        \<lparr>sessionTime := sessionTime s + int (count_list evs SessionTick)\<rparr>"
    if "set evs \<subseteq> {PhaseTick, SessionTick}
        \<and> sessionTime s + int (count_list evs SessionTick) \<le> totalDuration s * 60" for evs
    using that interleaved_ticks [OF assms(1), of evs] by (simp add: cf)
  from work flip rest full single cycle show ?thesis
    by blast
qed

lemma example_running_eq:
  "example_running =
     \<lparr> workTime = 5, restTime = 3, totalDuration = 1, prepareTime = 2, currentTime = 5,
       isWork = True, isActive = True, isPreparing = False, prepTime = 2, sessionTime = 0,
       workColor = ''#00FF00'', restColor = ''#FF0000'', bgColor = ''#000000'',
       textColor = ''#FFFFFF'', showSettings = False \<rparr>"
  by (simp add: example_running_def event_defs mount_defs)

text \<open>
  Witness for C3: the scenario of the specification (work 5, rest 3). Four ticks leave
  one second of work, the fifth enters Rest with 3, the eighth is back at the start, and
  three phase ticks mixed with two session ticks stand at position 3.
\<close>

theorem phase_alternation_witness:
  "isActive example_running \<and> isWork example_running
   \<and> currentTime example_running = workTime example_running
   \<and> 1 \<le> workTime example_running \<and> 1 \<le> restTime example_running
   \<and> (step PhaseTick ^^ 4) example_running = example_running\<lparr>currentTime := 1\<rparr>
   \<and> (step PhaseTick ^^ 5) example_running = example_running\<lparr>isWork := False, currentTime := 3\<rparr>
   \<and> (step PhaseTick ^^ 7) example_running = example_running\<lparr>isWork := False, currentTime := 1\<rparr>
   \<and> (step PhaseTick ^^ 8) example_running = example_running
   \<and> run [PhaseTick, SessionTick, PhaseTick, SessionTick, PhaseTick] example_running
       = example_running\<lparr>currentTime := 2, sessionTime := 2\<rparr>"
proof -
  have h: "isActive example_running" "isWork example_running"
    "currentTime example_running = workTime example_running"
    "1 \<le> workTime example_running" "1 \<le> restTime example_running"
    by (simp_all add: example_running_eq)
  note th = phase_alternation [OF h]
  have a: "(step PhaseTick ^^ 4) example_running = example_running\<lparr>currentTime := 1\<rparr>"
    using th [THEN conjunct1, rule_format, of 4] by (simp add: example_running_eq)
  have b: "(step PhaseTick ^^ 5) example_running
      = example_running\<lparr>isWork := False, currentTime := 3\<rparr>"
    using th [THEN conjunct2, THEN conjunct1] by (simp add: example_running_eq)
  have c: "(step PhaseTick ^^ 7) example_running
      = example_running\<lparr>isWork := False, currentTime := 1\<rparr>"
    using th [THEN conjunct2, THEN conjunct2, THEN conjunct1, rule_format, of 2]
    by (simp add: example_running_eq)
  have d: "(step PhaseTick ^^ 8) example_running = example_running"
    using th [THEN conjunct2, THEN conjunct2, THEN conjunct2, THEN conjunct1]
    by (simp add: example_running_eq)
  have e: "run [PhaseTick, SessionTick, PhaseTick, SessionTick, PhaseTick] example_running
       = example_running\<lparr>currentTime := 2, sessionTime := 2\<rparr>"
    using th [THEN conjunct2, THEN conjunct2, THEN conjunct2, THEN conjunct2, THEN conjunct2,
        rule_format, of "[PhaseTick, SessionTick, PhaseTick, SessionTick, PhaseTick]"]
    by (simp add: example_running_eq phase_at_def)
  from h a b c d e show ?thesis by simp
qed

subsection \<open>Start and preparation\<close>

lemma prep_countdown:
  "k < nat p \<Longrightarrow> prepareTime s = p \<Longrightarrow>
   (step PrepTick ^^ k) (s\<lparr>isPreparing := True, prepTime := p\<rparr>)
     = s\<lparr>isPreparing := True, prepTime := p - int k\<rparr>"
proof (induction k)
  case 0
  then show ?case by simp
next
  case (Suc k)
  then have "(step PrepTick ^^ k) (s\<lparr>isPreparing := True, prepTime := p\<rparr>)
     = s\<lparr>isPreparing := True, prepTime := p - int k\<rparr>"
    by simp
  moreover have "1 < p - int k"
    using Suc.prems by simp
  ultimately show ?case
    by (simp add: prep_tick_decrement)
qed

text \<open>
  Claim C4, as amended. From a state that is neither active nor preparing, with a
  preparation time of at least one second, the start button enters Preparing with
  \<open>prepTime = prepareTime\<close>; fewer than \<open>prepareTime\<close> prep ticks only count down; tick
  number \<open>prepareTime\<close> clears \<open>isPreparing\<close>, sets \<open>isActive\<close> and writes
  \<open>prepareTime\<close> back into \<open>prepTime\<close> in the same step. Nothing else changes: the
  phase is the one the timer had when the button was pressed, which is Work after
  mounting or a reset and Rest after a pause in a rest phase.
\<close>

theorem start_runs_preparation:
  assumes "\<not> isActive s" "\<not> isPreparing s" "1 \<le> prepareTime s"
  shows
    "step Toggle s = s\<lparr>isPreparing := True, prepTime := prepareTime s\<rparr>
     \<and> (\<forall>k. k < nat (prepareTime s) \<longrightarrow>
          (step PrepTick ^^ k) (step Toggle s)
            = s\<lparr>isPreparing := True, prepTime := prepareTime s - int k\<rparr>)
     \<and> (step PrepTick ^^ nat (prepareTime s)) (step Toggle s)
          = s\<lparr>isPreparing := False, isActive := True, prepTime := prepareTime s\<rparr>
     \<and> isWork ((step PrepTick ^^ nat (prepareTime s)) (step Toggle s)) = isWork s"
proof -
  let ?p = "prepareTime s"
  have start: "step Toggle s = s\<lparr>isPreparing := True, prepTime := ?p\<rparr>"
    using assms by (simp add: event_defs)
  have count: "(step PrepTick ^^ k) (step Toggle s)
      = s\<lparr>isPreparing := True, prepTime := ?p - int k\<rparr>"
    if "k < nat ?p" for k
    using that by (simp add: start prep_countdown)
  have "nat ?p = Suc (nat ?p - 1)"
    using assms by simp
  then have "(step PrepTick ^^ nat ?p) (step Toggle s)
      = step PrepTick ((step PrepTick ^^ (nat ?p - 1)) (step Toggle s))"
    by (metis funpow.simps(2) o_apply)
  also have "\<dots> = step PrepTick (s\<lparr>isPreparing := True, prepTime := ?p - int (nat ?p - 1)\<rparr>)"
    using assms by (subst count) simp_all
  also have "\<dots> = s\<lparr>isPreparing := False, isActive := True, prepTime := ?p\<rparr>"
    using assms by (simp add: prep_tick_finish)
  finally have finished: "(step PrepTick ^^ nat ?p) (step Toggle s)
      = s\<lparr>isPreparing := False, isActive := True, prepTime := ?p\<rparr>" .
  from start count finished show ?thesis
    by simp
qed

text \<open>Witness for C4: the first start after mounting, with the default preparation time 3.\<close>

theorem start_runs_preparation_witness:
  "\<not> isActive mounted \<and> \<not> isPreparing mounted \<and> 1 \<le> prepareTime mounted
   \<and> step Toggle mounted = mounted\<lparr>isPreparing := True, prepTime := 3\<rparr>
   \<and> (step PrepTick ^^ 2) (step Toggle mounted) = mounted\<lparr>isPreparing := True, prepTime := 1\<rparr>
   \<and> (step PrepTick ^^ 3) (step Toggle mounted)
        = mounted\<lparr>isPreparing := False, isActive := True, prepTime := 3\<rparr>
   \<and> isWork ((step PrepTick ^^ 3) (step Toggle mounted))"
proof -
  have h: "\<not> isActive mounted" "\<not> isPreparing mounted" "1 \<le> prepareTime mounted"
    by (simp_all add: mount_defs rebase_effect_def)
  note th = start_runs_preparation [OF h]
  have p: "prepareTime mounted = 3" "isWork mounted"
    by (simp_all add: mount_defs rebase_effect_def)
  have a: "step Toggle mounted = mounted\<lparr>isPreparing := True, prepTime := 3\<rparr>"
    using th [THEN conjunct1] by (simp add: p)
  have b: "(step PrepTick ^^ 2) (step Toggle mounted)
      = mounted\<lparr>isPreparing := True, prepTime := 1\<rparr>"
    using th [THEN conjunct2, THEN conjunct1, rule_format, of 2] by (simp add: p)
  have c: "(step PrepTick ^^ 3) (step Toggle mounted)
        = mounted\<lparr>isPreparing := False, isActive := True, prepTime := 3\<rparr>"
    using th [THEN conjunct2, THEN conjunct2, THEN conjunct1] by (simp add: p)
  have d: "isWork ((step PrepTick ^^ 3) (step Toggle mounted))"
    using th [THEN conjunct2, THEN conjunct2, THEN conjunct2] by (simp add: p)
  from h a b c d show ?thesis by simp
qed

lemma paused_in_rest_eq:
  "paused_in_rest =
     \<lparr> workTime = 40, restTime = 20, totalDuration = 8, prepareTime = 3, currentTime = 20,
       isWork = False, isActive = False, isPreparing = False, prepTime = 3, sessionTime = 40,
       workColor = ''#00FF00'', restColor = ''#FF0000'', bgColor = ''#000000'',
       textColor = ''#FFFFFF'', showSettings = False \<rparr>"
  unfolding paused_in_rest_def by code_simp

text \<open>
  Counterexample to C4 as stated: a timer paused in a rest phase is neither active nor
  preparing; the start button and three prep ticks take it to Running, and the phase
  there is Rest, not Work.
\<close>

theorem start_from_pause_in_rest_counterexample:
  "\<not> isActive paused_in_rest \<and> \<not> isPreparing paused_in_rest
   \<and> prepareTime paused_in_rest = 3
   \<and> isActive (run [Toggle, PrepTick, PrepTick, PrepTick] paused_in_rest)
   \<and> \<not> isPreparing (run [Toggle, PrepTick, PrepTick, PrepTick] paused_in_rest)
   \<and> \<not> isWork (run [Toggle, PrepTick, PrepTick, PrepTick] paused_in_rest)"
  by (simp add: paused_in_rest_eq event_defs)

subsection \<open>The countdown during preparation\<close>

lemma quiet_not_preparing_step:
  "quiet e \<Longrightarrow> \<not> isPreparing s \<Longrightarrow> \<not> isPreparing (step e s)"
  by (cases e) (simp_all add: event_defs)

lemma quiet_not_preparing_run:
  "list_all quiet evs \<Longrightarrow> \<not> isPreparing s \<Longrightarrow> \<not> isPreparing (run evs s)"
  by (induction evs arbitrary: s) (simp_all add: quiet_not_preparing_step)

lemma quiet_preparing_step:
  "quiet e \<Longrightarrow> isPreparing s \<Longrightarrow> \<not> isActive s \<Longrightarrow> isPreparing (step e s) \<Longrightarrow>
   isPreparing (step e s) \<and> \<not> isActive (step e s) \<and> currentTime (step e s) = currentTime s"
  by (cases e) (auto simp: event_defs split: if_splits)

lemma quiet_preparing_run:
  "list_all quiet evs \<Longrightarrow> isPreparing s \<Longrightarrow> \<not> isActive s \<Longrightarrow> isPreparing (run evs s) \<Longrightarrow>
   currentTime (run evs s) = currentTime s \<and> \<not> isActive (run evs s)"
proof (induction evs arbitrary: s)
  case Nil
  then show ?case by simp
next
  case (Cons e evs)
  have q: "quiet e" "list_all quiet evs"
    using Cons.prems(1) by simp_all
  have "isPreparing (step e s)"
    using quiet_not_preparing_run [OF q(2), of "step e s"] Cons.prems(4) by auto
  with q(1) Cons.prems(2,3)
  have "isPreparing (step e s) \<and> \<not> isActive (step e s)
      \<and> currentTime (step e s) = currentTime s"
    by (rule quiet_preparing_step)
  with Cons.IH [OF q(2), of "step e s"] Cons.prems(4) show ?case
    by simp
qed

text \<open>
  Claim C8, as amended. While the timer is preparing and not active, the phase ticker
  and the session ticker are off (their ticks change nothing) and a prep tick leaves
  \<open>currentTime\<close> as it is. The start/pause button also leaves \<open>currentTime\<close> as it is
  and does not cancel the preparation, but it sets \<open>isActive\<close>, which switches the
  phase ticker on. Any sequence of events without that button and without a work-time
  edit that ends with the timer still preparing ends with the same \<open>currentTime\<close> and
  with the timer still not active.
\<close>

theorem preparing_inactive_frozen:
  assumes "isPreparing s" "\<not> isActive s"
  shows
    "step PhaseTick s = s \<and> step SessionTick s = s
     \<and> currentTime (step PrepTick s) = currentTime s
     \<and> currentTime (step Toggle s) = currentTime s
     \<and> isPreparing (step Toggle s) \<and> isActive (step Toggle s)
     \<and> (\<forall>evs. list_all quiet evs \<and> isPreparing (run evs s) \<longrightarrow>
          currentTime (run evs s) = currentTime s \<and> \<not> isActive (run evs s))"
proof -
  have ticks: "step PhaseTick s = s \<and> step SessionTick s = s
     \<and> currentTime (step PrepTick s) = currentTime s"
    using assms by (simp add: event_defs)
  have toggle: "currentTime (step Toggle s) = currentTime s
     \<and> isPreparing (step Toggle s) \<and> isActive (step Toggle s)"
    using assms by (simp add: event_defs)
  have runs: "currentTime (run evs s) = currentTime s \<and> \<not> isActive (run evs s)"
    if "list_all quiet evs \<and> isPreparing (run evs s)" for evs
    using that assms quiet_preparing_run [of evs s] by simp
  from ticks toggle runs show ?thesis
    by blast
qed

text \<open>Witness for C8: the preparation that the first start after mounting begins.\<close>

theorem preparing_inactive_frozen_witness:
  "isPreparing (step Toggle mounted) \<and> \<not> isActive (step Toggle mounted)
   \<and> step PhaseTick (step Toggle mounted) = step Toggle mounted
   \<and> step SessionTick (step Toggle mounted) = step Toggle mounted
   \<and> currentTime (step PrepTick (step Toggle mounted)) = 40
   \<and> currentTime (step Toggle (step Toggle mounted)) = 40
   \<and> isPreparing
       (run [PhaseTick, SessionTick, PrepTick, EditRest (Some 30), PrepTick] (step Toggle mounted))
   \<and> currentTime
       (run [PhaseTick, SessionTick, PrepTick, EditRest (Some 30), PrepTick] (step Toggle mounted))
      = 40"
proof -
  have h: "isPreparing (step Toggle mounted)" "\<not> isActive (step Toggle mounted)"
    by (simp_all add: event_defs mount_defs)
  have c: "currentTime (step Toggle mounted) = 40"
    by (simp add: event_defs mount_defs)
  note th = preparing_inactive_frozen [OF h]
  have r: "isPreparing
      (run [PhaseTick, SessionTick, PrepTick, EditRest (Some 30), PrepTick] (step Toggle mounted))"
    by (simp add: event_defs mount_defs)
  have "currentTime
      (run [PhaseTick, SessionTick, PrepTick, EditRest (Some 30), PrepTick] (step Toggle mounted))
      = 40"
    using th [THEN conjunct2, THEN conjunct2, THEN conjunct2, THEN conjunct2, THEN conjunct2,
        THEN conjunct2, rule_format,
        of "[PhaseTick, SessionTick, PrepTick, EditRest (Some 30), PrepTick]"]
      r c by simp
  with h r th c show ?thesis
    by simp
qed

text \<open>
  Counterexample to C8 as stated: start, press the button again during the
  preparation, and let the phase ticker fire once. The timer is preparing in all three
  states, and the countdown has gone from 40 to 39.
\<close>

theorem phase_ticker_fires_while_preparing_counterexample:
  "isPreparing (run [Toggle] mounted)
   \<and> isPreparing (run [Toggle, Toggle] mounted)
   \<and> isPreparing (run [Toggle, Toggle, PhaseTick] mounted)
   \<and> currentTime (run [Toggle] mounted) = 40
   \<and> currentTime (run [Toggle, Toggle, PhaseTick] mounted) = 39"
  by (simp add: event_defs mount_defs)

subsection \<open>Editing the work time\<close>

text \<open>
  Claim C6. In every state reachable from the mounted component, committing a work time
  while the timer is not active and the phase is Work sets \<open>currentTime\<close> to the
  committed value, and committing one while the timer is active leaves \<open>currentTime\<close>
  unchanged; \<open>workTime\<close> takes the committed value either way.
\<close>

theorem work_edit_rebase:
  "(\<not> isActive (run evs mounted) \<and> isWork (run evs mounted) \<longrightarrow>
      currentTime (step (EditWork p) (run evs mounted)) = TimerSetting 1 3600 p)
   \<and> (isActive (run evs mounted) \<longrightarrow>
      currentTime (step (EditWork p) (run evs mounted)) = currentTime (run evs mounted))
   \<and> workTime (step (EditWork p) (run evs mounted)) = TimerSetting 1 3600 p"
proof -
  have "reach_inv (run evs mounted)"
    using reach_inv_mounted by (rule reach_inv_run)
  then show ?thesis
    by (simp add: reach_inv_def event_defs)
qed

text \<open>
  Witness for C6: an edit to 30 right after mounting shows 30; the same edit one second
  into the first work phase leaves the countdown at 39.
\<close>

theorem work_edit_rebase_witness:
  "\<not> isActive (run [] mounted) \<and> isWork (run [] mounted)
   \<and> currentTime (step (EditWork (Some 30)) (run [] mounted)) = 30
   \<and> isActive (run [Toggle, PrepTick, PrepTick, PrepTick, PhaseTick] mounted)
   \<and> currentTime (run [Toggle, PrepTick, PrepTick, PrepTick, PhaseTick] mounted) = 39
   \<and> currentTime
       (step (EditWork (Some 30)) (run [Toggle, PrepTick, PrepTick, PrepTick, PhaseTick] mounted))
      = 39"
proof -
  have a: "\<not> isActive (run [] mounted) \<and> isWork (run [] mounted)"
    by (simp add: mount_defs rebase_effect_def)
  have b: "isActive (run [Toggle, PrepTick, PrepTick, PrepTick, PhaseTick] mounted)
     \<and> currentTime (run [Toggle, PrepTick, PrepTick, PrepTick, PhaseTick] mounted) = 39"
    by (simp add: event_defs mount_defs)
  have t: "TimerSetting 1 3600 (Some 30) = 30"
    by (simp add: TimerSetting_def parsed_or_def)
  from a b t work_edit_rebase [of "[]" "Some 30"]
    work_edit_rebase [of "[Toggle, PrepTick, PrepTick, PrepTick, PhaseTick]" "Some 30"]
  show ?thesis by simp
qed

subsection \<open>Bounds of the countdown and the session counter\<close>





subsection \<open>Pause and the end of the session\<close>

text \<open>
  Claim C1, at a failing input. One second into the first work phase the countdown is
  39 and the session counter 1. The pause is a change of \<open>isActive\<close>, a dependency of
  the re-base effect, so the effect runs with the timer not active in the Work phase
  and writes \<open>workTime\<close> into the countdown: it reads 40 after the pause and still 40
  after the button is pressed again. The session counter is kept.
\<close>

theorem pause_in_work_rebases:
  "isActive running_mid_work \<and> \<not> isPreparing running_mid_work \<and> isWork running_mid_work
   \<and> currentTime running_mid_work = 39 \<and> sessionTime running_mid_work = 1
   \<and> currentTime (step Toggle running_mid_work) = 40
   \<and> sessionTime (step Toggle running_mid_work) = 1
   \<and> currentTime (step Toggle (step Toggle running_mid_work)) = 40
   \<and> sessionTime (step Toggle (step Toggle running_mid_work)) = 1"
  by (simp add: running_mid_work_def event_defs mount_defs)

lemma session_full_mid_work_eq:
  "session_full_mid_work =
     \<lparr> workTime = 100, restTime = 20, totalDuration = 1, prepareTime = 3, currentTime = 40,
       isWork = True, isActive = True, isPreparing = False, prepTime = 3, sessionTime = 60,
       workColor = ''#00FF00'', restColor = ''#FF0000'', bgColor = ''#000000'',
       textColor = ''#FFFFFF'', showSettings = False \<rparr>"
  unfolding session_full_mid_work_def by code_simp

text \<open>
  Claim C2, at a failing input. With a work time of 100 and a total duration of one
  minute, sixty seconds into the session the counter stands at its cap with 40 seconds
  of work left. The next session tick leaves the counter at 60, clears \<open>isActive\<close> and
  keeps the phase, and the render that follows runs the re-base effect: the countdown
  reads 100, not 40.
\<close>

theorem session_end_in_work_rebases:
  "isActive session_full_mid_work \<and> isWork session_full_mid_work
   \<and> sessionTime session_full_mid_work = totalDuration session_full_mid_work * 60
   \<and> currentTime session_full_mid_work = 40
   \<and> \<not> isActive (step SessionTick session_full_mid_work)
   \<and> isWork (step SessionTick session_full_mid_work)
   \<and> sessionTime (step SessionTick session_full_mid_work) = 60
   \<and> currentTime (step SessionTick session_full_mid_work) = 100"
  by (simp add: session_full_mid_work_eq event_defs)

end
